theory Spec2Isabelle
  imports Complex_Main
begin

section \<open>Solver contract\<close>

text \<open>
  The notebooks hand every bound AMPL model to an external solver (HiGHS, CBC) with
  \<^verbatim>\<open>ampl.solve()\<close>. The solver is not part of the repository: what the notebooks rely
  on is that, when it reports an optimal solution, the variable values it hands back
  satisfy every constraint of the model and no feasible point has a better objective.
  Numbers are the model's real numbers (floating point rounding is not modelled).
\<close>

definition optimal_max :: "('a \<Rightarrow> bool) \<Rightarrow> ('a \<Rightarrow> real) \<Rightarrow> 'a \<Rightarrow> bool" where
  "optimal_max feasible objective sol \<longleftrightarrow>
     feasible sol \<and> (\<forall>sol'. feasible sol' \<longrightarrow> objective sol' \<le> objective sol)"

definition optimal_min :: "('a \<Rightarrow> bool) \<Rightarrow> ('a \<Rightarrow> real) \<Rightarrow> 'a \<Rightarrow> bool" where
  "optimal_min feasible objective sol \<longleftrightarrow>
     feasible sol \<and> (\<forall>sol'. feasible sol' \<longrightarrow> objective sol \<le> objective sol')"

section \<open>The BIM microchip production problem (notebooks/02/bim.ipynb)\<close>

text \<open>
  \<^verbatim>\<open>
  var x1 >= 0;
  var x2 >= 0;
  maximize profit: 12 * x1 + 9 * x2;
  s.t. silicon: x1 <= 1000;
  s.t. germanium: x2 <= 1500;
  s.t. plastic: x1 + x2 <= 1750;
  s.t. copper: 4 * x1 + 2 * x2 <= 4800;
  \<close>
\<close>

record bim_vars =
  bim_x1 :: real
  bim_x2 :: real

definition bim_profit :: "bim_vars \<Rightarrow> real" where
  "bim_profit v = 12 * bim_x1 v + 9 * bim_x2 v"

definition bim_silicon :: "bim_vars \<Rightarrow> bool" where
  "bim_silicon v \<longleftrightarrow> bim_x1 v \<le> 1000"

definition bim_germanium :: "bim_vars \<Rightarrow> bool" where
  "bim_germanium v \<longleftrightarrow> bim_x2 v \<le> 1500"

definition bim_plastic :: "bim_vars \<Rightarrow> bool" where
  "bim_plastic v \<longleftrightarrow> bim_x1 v + bim_x2 v \<le> 1750"

definition bim_copper :: "bim_vars \<Rightarrow> bool" where
  "bim_copper v \<longleftrightarrow> 4 * bim_x1 v + 2 * bim_x2 v \<le> 4800"

definition bim_feasible :: "bim_vars \<Rightarrow> bool" where
  "bim_feasible v \<longleftrightarrow>
     0 \<le> bim_x1 v \<and> 0 \<le> bim_x2 v \<and>
     bim_silicon v \<and> bim_germanium v \<and> bim_plastic v \<and> bim_copper v"

text \<open>
  The dual model, \<^verbatim>\<open>bim_dual.mod\<close>:
  \<^verbatim>\<open>
  var y1 >= 0;  var y2 >= 0;  var y3 >= 0;  var y4 >= 0;
  minimize obj: 1000 * y1 + 1500 * y2 + 1750 * y3 + 4800 * y4;
  s.t. x1: y1 + y3 + 4 * y4 >= 12;
  s.t. x2: y2 + y3 + 2 * y4 >= 9;
  \<close>
\<close>

record bim_dual_vars =
  bim_y1 :: real
  bim_y2 :: real
  bim_y3 :: real
  bim_y4 :: real

definition bim_dual_obj :: "bim_dual_vars \<Rightarrow> real" where
  "bim_dual_obj v = 1000 * bim_y1 v + 1500 * bim_y2 v + 1750 * bim_y3 v + 4800 * bim_y4 v"

definition bim_dual_x1 :: "bim_dual_vars \<Rightarrow> bool" where
  "bim_dual_x1 v \<longleftrightarrow> bim_y1 v + bim_y3 v + 4 * bim_y4 v \<ge> 12"

definition bim_dual_x2 :: "bim_dual_vars \<Rightarrow> bool" where
  "bim_dual_x2 v \<longleftrightarrow> bim_y2 v + bim_y3 v + 2 * bim_y4 v \<ge> 9"

definition bim_dual_feasible :: "bim_dual_vars \<Rightarrow> bool" where
  "bim_dual_feasible v \<longleftrightarrow>
     0 \<le> bim_y1 v \<and> 0 \<le> bim_y2 v \<and> 0 \<le> bim_y3 v \<and> 0 \<le> bim_y4 v \<and>
     bim_dual_x1 v \<and> bim_dual_x2 v"

section \<open>The pop-up shop (src/unnamed/part\_004)\<close>

subsection \<open>Scenario data and the expected value of the mean scenario\<close>

text \<open>
  \<^verbatim>\<open>
  r = 40
  c = 12
  w = 2
  scenarios = {
      "sunny skies": {"probability": 0.10, "demand": 650},
      "good weather": {"probability": 0.60, "demand": 400},
      "poor weather": {"probability": 0.30, "demand": 200},
  }
  df = pd.DataFrame.from_dict(scenarios).T
  \<close>
  A scenario dictionary is an association list in insertion order; a Python dictionary
  has every key once, which the theorems assume as \<open>distinct (map fst scenarios)\<close>.
\<close>

record scenario =
  probability :: real
  demand :: real

type_synonym scenarios = "(string \<times> scenario) list"

record prices =
  price_r :: real
  price_c :: real
  price_w :: real

definition notebook_prices :: prices where
  "notebook_prices = \<lparr>price_r = 40, price_c = 12, price_w = 2\<rparr>"

definition notebook_scenarios :: scenarios where
  "notebook_scenarios =
     [(''sunny skies'', \<lparr>probability = 0.10, demand = 650\<rparr>),
      (''good weather'', \<lparr>probability = 0.60, demand = 400\<rparr>),
      (''poor weather'', \<lparr>probability = 0.30, demand = 200\<rparr>)]"

text \<open>
  \<^verbatim>\<open>
  expected_demand = sum(df["probability"] * df["demand"])
  df["order"] = expected_demand
  df["sold"] = df[["demand", "order"]].min(axis=1)
  df["salvage"] = df["order"] - df["sold"]
  df["profit"] = r * df["sold"] + w * df["salvage"] - c * df["order"]
  EVM = sum(df["probability"] * df["profit"])
  \<close>
  The data frame of an empty dictionary has no columns: \<^verbatim>\<open>df["probability"]\<close> then
  raises \<^verbatim>\<open>KeyError('probability')\<close>, and neither the expected demand nor EVM gets a
  value. The column \<^verbatim>\<open>order\<close> holds the expected demand in every row.

  The sums and products are those of the real numbers. pandas computes them in binary
  floating point (float64), rounding after every operation, so a printed value can differ
  from the exact one in its last digits; the rounding is not modelled.
\<close>

datatype py_error = KeyError string

definition expected_demand :: "scenarios \<Rightarrow> py_error + real" where
  "expected_demand df =
     (if df = [] then Inl (KeyError ''probability'')
      else Inr (\<Sum>row\<leftarrow>df. probability (snd row) * demand (snd row)))"

definition df_sold :: "real \<Rightarrow> scenario \<Rightarrow> real" where
  "df_sold order_size sc = min (demand sc) order_size"

definition df_salvage :: "real \<Rightarrow> scenario \<Rightarrow> real" where
  "df_salvage order_size sc = order_size - df_sold order_size sc"

definition df_profit :: "prices \<Rightarrow> real \<Rightarrow> scenario \<Rightarrow> real" where
  "df_profit pr order_size sc =
     price_r pr * df_sold order_size sc + price_w pr * df_salvage order_size sc
       - price_c pr * order_size"

definition EVM :: "prices \<Rightarrow> scenarios \<Rightarrow> py_error + real" where
  "EVM pr df =
     (case expected_demand df of
        Inl e \<Rightarrow> Inl e
      | Inr order_size \<Rightarrow>
          Inr (\<Sum>row\<leftarrow>df. probability (snd row) * df_profit pr order_size (snd row)))"

subsection \<open>Binding the data to the model\<close>

text \<open>
  The cell that solves \<^verbatim>\<open>pop.mod\<close> assigns the scenario dictionary again, from a
  literal of its own:
  \<^verbatim>\<open>
  scenarios = {
      "sunny skies": {"demand": 650, "probability": 0.1},
      "good weather": {"demand": 400, "probability": 0.6},
      "poor weather": {"demand": 200, "probability": 0.3},
  }
  \<close>
\<close>

definition solve_scenarios :: scenarios where
  "solve_scenarios =
     [(''sunny skies'', \<lparr>probability = 0.1, demand = 650\<rparr>),
      (''good weather'', \<lparr>probability = 0.6, demand = 400\<rparr>),
      (''poor weather'', \<lparr>probability = 0.3, demand = 200\<rparr>)]"

text \<open>
  \<^verbatim>\<open>
  scenarios_df = pd.DataFrame.from_dict(scenarios).T.rename(
      columns={"demand": "d", "probability": "p"})
  ampl = AMPL()
  ampl.read("pop.mod")
  ampl.param["r"] = r
  ampl.param["c"] = c
  ampl.param["w"] = w
  ampl.set_data(scenarios_df, "S")
  \<close>
  \<^verbatim>\<open>set_data\<close> makes the index of the data frame the set \<open>S\<close> and its columns the
  parameters \<open>p\<close> and \<open>d\<close> indexed by \<open>S\<close>. A parameter is only ever read at a member
  of \<open>S\<close>; elsewhere \<open>column\<close> is 0. Neither the cell nor the model
  (\<^verbatim>\<open>param p{S};\<close>, without a condition) checks the data, and no statement of the
  cell raises: binding always yields a bound model, \<open>Inr\<close>. The error value is the
  configuration error the specification names; no statement of the notebook produces it.
\<close>

record pop_data =
  param_r :: real
  param_c :: real
  param_w :: real
  set_S :: "string list"
  param_p :: "string \<Rightarrow> real"
  param_d :: "string \<Rightarrow> real"

definition column :: "(scenario \<Rightarrow> real) \<Rightarrow> scenarios \<Rightarrow> string \<Rightarrow> real" where
  "column col df s = (case map_of df s of Some sc \<Rightarrow> col sc | None \<Rightarrow> 0)"

definition set_data :: "prices \<Rightarrow> scenarios \<Rightarrow> pop_data" where
  "set_data pr df =
     \<lparr>param_r = price_r pr, param_c = price_c pr, param_w = price_w pr,
      set_S = map fst df, param_p = column probability df, param_d = column demand df\<rparr>"

datatype config_error = Configuration_Error

definition pop_bind :: "prices \<Rightarrow> scenarios \<Rightarrow> config_error + pop_data" where
  "pop_bind pr df = Inr (set_data pr df)"

subsection \<open>The model pop.mod\<close>

text \<open>
  \<^verbatim>\<open>
  param r;  param c;  param w;
  set S;
  param p{S};
  param d{S};
  var x >= 0;
  var y{S} >= 0;
  var f{S};
  maximize EV: sum{s in S} p[s] * f[s];
  s.t. profit {s in S}: f[s] == r * y[s] + w * (x - y[s]) - c * x;
  s.t. sales_less_than_order {s in S}: y[s] <= x;
  s.t. sales_less_than_demand {s in S}: y[s] <= d[s];
  \<close>
  An indexed constraint \<^verbatim>\<open>name {s in S}: ...\<close> stands for one constraint per member of
  \<open>S\<close>. The bound model lists them, each with its name and its index.
\<close>

record pop_vars =
  pop_x :: real
  pop_y :: "string \<Rightarrow> real"
  pop_f :: "string \<Rightarrow> real"

record 'v constraint =
  con_name :: string
  con_index :: string
  con_holds :: "'v \<Rightarrow> bool"

definition pop_EV :: "pop_data \<Rightarrow> pop_vars \<Rightarrow> real" where
  "pop_EV m v = (\<Sum>s\<leftarrow>set_S m. param_p m s * pop_f v s)"

definition pop_profit :: "pop_data \<Rightarrow> pop_vars constraint list" where
  "pop_profit m =
     map (\<lambda>s. \<lparr>con_name = ''profit'', con_index = s,
               con_holds = (\<lambda>v. pop_f v s =
                 param_r m * pop_y v s + param_w m * (pop_x v - pop_y v s) - param_c m * pop_x v)\<rparr>)
       (set_S m)"

definition pop_sales_less_than_order :: "pop_data \<Rightarrow> pop_vars constraint list" where
  "pop_sales_less_than_order m =
     map (\<lambda>s. \<lparr>con_name = ''sales_less_than_order'', con_index = s,
               con_holds = (\<lambda>v. pop_y v s \<le> pop_x v)\<rparr>)
       (set_S m)"

definition pop_sales_less_than_demand :: "pop_data \<Rightarrow> pop_vars constraint list" where
  "pop_sales_less_than_demand m =
     map (\<lambda>s. \<lparr>con_name = ''sales_less_than_demand'', con_index = s,
               con_holds = (\<lambda>v. pop_y v s \<le> param_d m s)\<rparr>)
       (set_S m)"

definition pop_constraints :: "pop_data \<Rightarrow> pop_vars constraint list" where
  "pop_constraints m =
     pop_profit m @ pop_sales_less_than_order m @ pop_sales_less_than_demand m"

definition pop_bounds :: "pop_data \<Rightarrow> pop_vars \<Rightarrow> bool" where
  "pop_bounds m v \<longleftrightarrow> 0 \<le> pop_x v \<and> (\<forall>s \<in> set (set_S m). 0 \<le> pop_y v s)"

definition pop_feasible :: "pop_data \<Rightarrow> pop_vars \<Rightarrow> bool" where
  "pop_feasible m v \<longleftrightarrow> pop_bounds m v \<and> (\<forall>k \<in> set (pop_constraints m). con_holds k v)"

subsection \<open>The model pop\_evpi.mod\<close>

text \<open>
  The same model with the order indexed by the scenario:
  \<^verbatim>\<open>
  var x{S} >= 0;
  var y{S} >= 0;
  var f{S};
  maximize EV: sum{s in S} p[s] * f[s];
  s.t. profit {s in S}: f[s] == r * y[s] + w * (x[s] - y[s]) - c * x[s];
  s.t. sales_less_than_order {s in S}: y[s] <= x[s];
  s.t. sales_less_than_demand {s in S}: y[s] <= d[s];
  \<close>
\<close>

record evpi_vars =
  evpi_x :: "string \<Rightarrow> real"
  evpi_y :: "string \<Rightarrow> real"
  evpi_f :: "string \<Rightarrow> real"

definition evpi_EV :: "pop_data \<Rightarrow> evpi_vars \<Rightarrow> real" where
  "evpi_EV m v = (\<Sum>s\<leftarrow>set_S m. param_p m s * evpi_f v s)"

definition evpi_profit :: "pop_data \<Rightarrow> evpi_vars constraint list" where
  "evpi_profit m =
     map (\<lambda>s. \<lparr>con_name = ''profit'', con_index = s,
               con_holds = (\<lambda>v. evpi_f v s =
                 param_r m * evpi_y v s + param_w m * (evpi_x v s - evpi_y v s)
                   - param_c m * evpi_x v s)\<rparr>)
       (set_S m)"

definition evpi_sales_less_than_order :: "pop_data \<Rightarrow> evpi_vars constraint list" where
  "evpi_sales_less_than_order m =
     map (\<lambda>s. \<lparr>con_name = ''sales_less_than_order'', con_index = s,
               con_holds = (\<lambda>v. evpi_y v s \<le> evpi_x v s)\<rparr>)
       (set_S m)"

definition evpi_sales_less_than_demand :: "pop_data \<Rightarrow> evpi_vars constraint list" where
  "evpi_sales_less_than_demand m =
     map (\<lambda>s. \<lparr>con_name = ''sales_less_than_demand'', con_index = s,
               con_holds = (\<lambda>v. evpi_y v s \<le> param_d m s)\<rparr>)
       (set_S m)"

definition evpi_constraints :: "pop_data \<Rightarrow> evpi_vars constraint list" where
  "evpi_constraints m =
     evpi_profit m @ evpi_sales_less_than_order m @ evpi_sales_less_than_demand m"

definition evpi_bounds :: "pop_data \<Rightarrow> evpi_vars \<Rightarrow> bool" where
  "evpi_bounds m v \<longleftrightarrow> (\<forall>s \<in> set (set_S m). 0 \<le> evpi_x v s \<and> 0 \<le> evpi_y v s)"

definition evpi_feasible :: "pop_data \<Rightarrow> evpi_vars \<Rightarrow> bool" where
  "evpi_feasible m v \<longleftrightarrow> evpi_bounds m v \<and> (\<forall>k \<in> set (evpi_constraints m). con_holds k v)"

subsection \<open>The derived metrics of the summary\<close>



subsection \<open>Validity of a scenario set, as the specification words it\<close>

text \<open>
  The specification asks of a scenario set that its probabilities are non-negative and sum
  to 1 within a tolerance of \<open>1e-6\<close>. The notebook has no such predicate; this one follows
  the specification's words and is what the source is compared with.
\<close>

definition spec_valid_scenario_set :: "scenarios \<Rightarrow> bool" where
  "spec_valid_scenario_set df \<longleftrightarrow>
     (\<forall>row \<in> set df. 0 \<le> probability (snd row)) \<and>
     \<bar>(\<Sum>row\<leftarrow>df. probability (snd row)) - 1\<bar> \<le> 1 / 10 ^ 6"

subsection \<open>Particular variable assignments\<close>

text \<open>
  Ordering \<open>x\<close> items and selling, in every scenario, the lesser of the demand and the
  order (\<open>y\<^sub>s = min(d\<^sub>s, x)\<close> in the notebook's text), with the profit the constraint
  \<^verbatim>\<open>profit\<close> then fixes.
\<close>

definition order_solution :: "pop_data \<Rightarrow> real \<Rightarrow> pop_vars" where
  "order_solution m x =
     \<lparr>pop_x = x,
      pop_y = (\<lambda>s. min (param_d m s) x),
      pop_f = (\<lambda>s. param_r m * min (param_d m s) x + param_w m * (x - min (param_d m s) x)
                 - param_c m * x)\<rparr>"




definition notebook_model :: pop_data where
  "notebook_model = set_data notebook_prices solve_scenarios"

subsection \<open>The integer formulation of the notebook's text\<close>

text \<open>
  The text of the notebook states the problem with \<open>x \<in> \<int>\<^sub>+\<close> and \<open>y\<^sub>s \<in> \<int>\<^sub>+\<close>, while
  \<^verbatim>\<open>pop.mod\<close> declares \<^verbatim>\<open>var x >= 0; var y{S} >= 0;\<close>. The integer program is the model
  with both required integral. (The profit is the one the text derives and the model
  has, with the salvage term \<open>w (x - y\<^sub>s)\<close>; the display of the program prints
  \<open>d\<^sub>s\<close> for \<open>x\<close> there.)
\<close>

definition pop_integer_feasible :: "pop_data \<Rightarrow> pop_vars \<Rightarrow> bool" where
  "pop_integer_feasible m v \<longleftrightarrow>
     pop_feasible m v \<and> pop_x v \<in> \<int> \<and> (\<forall>s \<in> set (set_S m). pop_y v s \<in> \<int>)"

subsection \<open>Solving and reporting\<close>

text \<open>
  \<^verbatim>\<open>
  ampl.option["solver"] = SOLVER
  ampl.solve()
  print("Solver Termination Condition:", ampl.get_value("solve_result"))
  print()
  df = pd.DataFrame.from_dict(scenarios).T
  df["order"] = ampl.var["x"].value()
  df["sold"] = ampl.var["y"].get_values().toPandas()
  df["salvage"] = df["order"] - df["sold"]
  df["profit"] = ampl.var["f"].get_values().toPandas()
  display(df)
  print("Expected Profit:", ampl.obj["EV"].value())
  \<close>
  After the solve, AMPL holds the solver's \<^verbatim>\<open>solve_result\<close> and the variable values
  the solver left; the value of the objective \<^verbatim>\<open>EV\<close> is the objective at those values.
  The solver is a parameter of the cell: a function from the bound model to that outcome.
\<close>

record 'v outcome =
  solve_result :: string
  solution :: 'v

record solution_row =
  row_demand :: real
  row_probability :: real
  row_order :: real
  row_sold :: real
  row_salvage :: real
  row_profit :: real

datatype report_line =
    Termination_Condition string
  | Blank_Line
  | Display "(string \<times> solution_row) list"
  | Expected_Profit real

definition solution_table :: "scenarios \<Rightarrow> pop_vars \<Rightarrow> (string \<times> solution_row) list" where
  "solution_table df v =
     map (\<lambda>row. (fst row,
            \<lparr>row_demand = demand (snd row), row_probability = probability (snd row),
             row_order = pop_x v, row_sold = pop_y v (fst row),
             row_salvage = pop_x v - pop_y v (fst row),
             row_profit = pop_f v (fst row)\<rparr>)) df"

definition pop_report :: "scenarios \<Rightarrow> pop_data \<Rightarrow> pop_vars outcome \<Rightarrow> report_line list" where
  "pop_report df m out =
     [Termination_Condition (solve_result out), Blank_Line,
      Display (solution_table df (solution out)),
      Expected_Profit (pop_EV m (solution out))]"

definition pop_cell ::
  "(pop_data \<Rightarrow> pop_vars outcome) \<Rightarrow> prices \<Rightarrow> scenarios \<Rightarrow> config_error + report_line list"
where
  "pop_cell solver pr df =
     (case pop_bind pr df of
        Inl e \<Rightarrow> Inl e
      | Inr m \<Rightarrow> Inr (pop_report df m (solver m)))"

definition metric_lines :: "report_line list \<Rightarrow> report_line list" where
  "metric_lines rep = filter (\<lambda>l. case l of Expected_Profit e \<Rightarrow> True | _ \<Rightarrow> False) rep"


subsection \<open>Reading the bound model\<close>

text \<open>The indices of the constraints of one name, in the order the bound model lists them.\<close>

definition family :: "string \<Rightarrow> 'v constraint list \<Rightarrow> string list" where
  "family name ks = map con_index (filter (\<lambda>k. con_name k = name) ks)"

text \<open>
  Further scenario dictionaries: one whose weights sum to 0.9; a valid one with a negative
  demand; and one whose only demand is negative. For the last two \<^verbatim>\<open>pop.mod\<close> has no
  feasible point.
\<close>

definition underweight_scenarios :: scenarios where
  "underweight_scenarios =
     [(''sunny skies'', \<lparr>probability = 0.10, demand = 650\<rparr>),
      (''good weather'', \<lparr>probability = 0.50, demand = 400\<rparr>),
      (''poor weather'', \<lparr>probability = 0.30, demand = 200\<rparr>)]"


definition negative_demand_scenarios :: scenarios where
  "negative_demand_scenarios = [(''poor weather'', \<lparr>probability = 1, demand = - 200\<rparr>)]"

definition infeasible_outcome :: "pop_vars outcome" where
  "infeasible_outcome =
     \<lparr>solve_result = ''infeasible'',
      solution = \<lparr>pop_x = 0, pop_y = (\<lambda>s. 0), pop_f = (\<lambda>s. 0)\<rparr>\<rparr>"

section \<open>Least absolute deviation regression (src/unnamed/part\_001)\<close>

text \<open>
  \<^verbatim>\<open>
  set I;
  set J;
  param y{I};
  param X{I, J};
  var ep{I} >= 0;
  var em{I} >= 0;
  var m{J} >= 0;
  var b;
  s.t. residuals {i in I}:
      ep[i] - em[i] == y[i] - sum{j in J}(X[i, j] * m[j]) - b;
  minimize sum_of_abs_errors: sum{i in I}(ep[i] + em[i]);
  \<close>
  \<^verbatim>\<open>
  def lad_regression(X, y):
      ampl = AMPL()
      ampl.read("lad_regression.mod")
      n, k = X.shape
      ampl.set["I"] = range(n)
      ampl.set["J"] = range(k)
      ampl.param["y"] = y
      ampl.param["X"] = X
      ampl.option["solver"] = SOLVER
      ampl.solve()
      return ampl
  \<close>
  A numpy matrix is its shape and its entries; the vector \<open>y\<close> is read at the indices
  of \<open>I\<close>.
\<close>

record matrix =
  shape :: "nat \<times> nat"
  entry :: "nat \<Rightarrow> nat \<Rightarrow> real"

record lad_data =
  lad_I :: "nat list"
  lad_J :: "nat list"
  lad_y :: "nat \<Rightarrow> real"
  lad_X :: "nat \<Rightarrow> nat \<Rightarrow> real"

definition lad_bind :: "matrix \<Rightarrow> (nat \<Rightarrow> real) \<Rightarrow> lad_data" where
  "lad_bind X y =
     (case shape X of (n, k) \<Rightarrow>
        \<lparr>lad_I = [0..<n], lad_J = [0..<k], lad_y = y, lad_X = entry X\<rparr>)"

record lad_vars =
  lad_ep :: "nat \<Rightarrow> real"
  lad_em :: "nat \<Rightarrow> real"
  lad_m :: "nat \<Rightarrow> real"
  lad_b :: real

definition lad_bounds :: "lad_data \<Rightarrow> lad_vars \<Rightarrow> bool" where
  "lad_bounds d v \<longleftrightarrow>
     (\<forall>i \<in> set (lad_I d). 0 \<le> lad_ep v i) \<and>
     (\<forall>i \<in> set (lad_I d). 0 \<le> lad_em v i) \<and>
     (\<forall>j \<in> set (lad_J d). 0 \<le> lad_m v j)"

definition lad_residuals :: "lad_data \<Rightarrow> lad_vars \<Rightarrow> bool" where
  "lad_residuals d v \<longleftrightarrow>
     (\<forall>i \<in> set (lad_I d).
        lad_ep v i - lad_em v i
          = lad_y d i - (\<Sum>j\<leftarrow>lad_J d. lad_X d i j * lad_m v j) - lad_b v)"

definition lad_feasible :: "lad_data \<Rightarrow> lad_vars \<Rightarrow> bool" where
  "lad_feasible d v \<longleftrightarrow> lad_bounds d v \<and> lad_residuals d v"

definition sum_of_abs_errors :: "lad_data \<Rightarrow> lad_vars \<Rightarrow> real" where
  "sum_of_abs_errors d v = (\<Sum>i\<leftarrow>lad_I d. lad_ep v i + lad_em v i)"

text \<open>
  The formulation in the text of the notebook: minimise \<open>\<Sum>\<^sub>i |e\<^sub>i|\<close> with
  \<open>e\<^sub>i = y\<^sub>i - m\<^sup>T X\<^sub>i - b\<close> \<open>for some real numbers m\<^sub>1, \<dots>, m\<^sub>k and b\<close>: the
  coefficients carry no sign constraint there.
\<close>

definition text_deviation :: "lad_data \<Rightarrow> (nat \<Rightarrow> real) \<times> real \<Rightarrow> nat \<Rightarrow> real" where
  "text_deviation d mb i = lad_y d i - (\<Sum>j\<leftarrow>lad_J d. lad_X d i j * fst mb j) - snd mb"

definition text_objective :: "lad_data \<Rightarrow> (nat \<Rightarrow> real) \<times> real \<Rightarrow> real" where
  "text_objective d mb = (\<Sum>i\<leftarrow>lad_I d. \<bar>text_deviation d mb i\<bar>)"

definition unconstrained :: "(nat \<Rightarrow> real) \<times> real \<Rightarrow> bool" where
  "unconstrained mb \<longleftrightarrow> True"

text \<open>A data set on a falling line: the points \<open>(0, 1)\<close> and \<open>(1, 0)\<close>.\<close>

definition falling_X :: matrix where
  "falling_X = \<lparr>shape = (2, 1), entry = (\<lambda>i j. if i = 0 then 0 else 1)\<rparr>"

definition falling_y :: "nat \<Rightarrow> real" where
  "falling_y i = (if i = 0 then 1 else 0)"

definition falling_fit :: lad_vars where
  "falling_fit =
     \<lparr>lad_ep = (\<lambda>i. 0), lad_em = (\<lambda>i. if i = 0 then 0 else 1),
      lad_m = (\<lambda>j. 0), lad_b = 1\<rparr>"

definition falling_other_fit :: lad_vars where
  "falling_other_fit =
     \<lparr>lad_ep = (\<lambda>i. if i = 0 then 1 else 0), lad_em = (\<lambda>i. 0),
      lad_m = (\<lambda>j. 0), lad_b = 0\<rparr>"

section \<open>Optimal power flow with recourse: the SAA objective (src/unnamed/part\_007)\<close>

text \<open>
  Of \<^verbatim>\<open>opf_ldr.mod\<close>, the sets and parameters its objective reads, and the objective:
  \<^verbatim>\<open>
  set T;
  set V;
  param is_generator{V};
  param energy_type{V} symbolic;
  param c{V};
  param abs_total_imbalance{T} >= 0;
  param nT := card(T);
  var p{i in V} >= p_min[i], <= p_max[i];
  var alpha{V} >= 0, <= 1;
  minimize obj:
      sum{i in V: is_generator[i] == 1} c[i] * p[i] +
      1 / nT * sum{t in T, i in V: energy_type[i] == "coal" or energy_type[i] == "gas"}
          2 * c[i] * alpha[i] * abs_total_imbalance[t];
  \<close>
  and of \<^verbatim>\<open>OPF_participationfactors\<close> the binding of the scenarios:
  \<^verbatim>\<open>
  nimbalances = len(imbalances)
  ampl.set["T"] = list(range(nimbalances))
  \<close>
  With no scenario \<open>nT\<close> is 0 and \<open>1 / nT\<close> cannot be computed: the objective then has
  no value.
\<close>

record opf_data =
  opf_T :: "nat list"
  opf_V :: "nat list"
  opf_is_generator :: "nat \<Rightarrow> real"
  opf_energy_type :: "nat \<Rightarrow> string"
  opf_c :: "nat \<Rightarrow> real"
  opf_abs_total_imbalance :: "nat \<Rightarrow> real"

record opf_vars =
  opf_p :: "nat \<Rightarrow> real"
  opf_alpha :: "nat \<Rightarrow> real"

text \<open>
  The scenario generator draws \<open>T\<close> scenarios, one after the other, from the random
  generator (\<open>draw t\<close> stands for the \<open>t\<close>-th dictionary drawn):
  \<^verbatim>\<open>
  imbalances = [{i: rng.uniform(...) if i in SW else 0 for i in nodes_df.index}
                for t in range(T)]
  \<close>
\<close>

definition sampled_imbalances :: "nat \<Rightarrow> (nat \<Rightarrow> 'a) \<Rightarrow> 'a list" where
  "sampled_imbalances T draw = map draw [0..<T]"

definition OPF_set_T :: "'a list \<Rightarrow> nat list" where
  "OPF_set_T imbalances = [0..<length imbalances]"

definition nT :: "opf_data \<Rightarrow> real" where
  "nT d = real (length (opf_T d))"

definition first_stage_cost :: "opf_data \<Rightarrow> opf_vars \<Rightarrow> real" where
  "first_stage_cost d v =
     (\<Sum>i\<leftarrow>filter (\<lambda>i. opf_is_generator d i = 1) (opf_V d). opf_c d i * opf_p v i)"

definition recourse_cost :: "opf_data \<Rightarrow> opf_vars \<Rightarrow> nat \<Rightarrow> real" where
  "recourse_cost d v t =
     (\<Sum>i\<leftarrow>filter (\<lambda>i. opf_energy_type d i = ''coal'' \<or> opf_energy_type d i = ''gas'') (opf_V d).
        2 * opf_c d i * opf_alpha v i * opf_abs_total_imbalance d t)"

definition opf_obj :: "opf_data \<Rightarrow> opf_vars \<Rightarrow> real option" where
  "opf_obj d v =
     (if nT d = 0 then None
      else Some (first_stage_cost d v + 1 / nT d * (\<Sum>t\<leftarrow>opf_T d. recourse_cost d v t)))"

text \<open>A network with one coal generator and two sampled scenarios.\<close>

definition two_sample_network :: opf_data where
  "two_sample_network =
     \<lparr>opf_T = OPF_set_T (sampled_imbalances 2 (\<lambda>t. ())), opf_V = [0],
      opf_is_generator = (\<lambda>i. 1), opf_energy_type = (\<lambda>i. ''coal''),
      opf_c = (\<lambda>i. 3), opf_abs_total_imbalance = (\<lambda>t. if t = 0 then 10 else 30)\<rparr>"

definition two_sample_dispatch :: opf_vars where
  "two_sample_dispatch = \<lparr>opf_p = (\<lambda>i. 100), opf_alpha = (\<lambda>i. 1)\<rparr>"

section \<open>Properties of the BIM models\<close>

lemmas bim_defs = bim_feasible_def bim_profit_def bim_silicon_def bim_germanium_def
  bim_plastic_def bim_copper_def

lemmas bim_dual_defs = bim_dual_feasible_def bim_dual_obj_def bim_dual_x1_def bim_dual_x2_def

lemma bim_profit_bound: "bim_feasible v \<Longrightarrow> bim_profit v \<le> 17700"
  unfolding bim_defs by linarith

lemma bim_profit_tight:
  assumes "bim_feasible v" and "bim_profit v = 17700"
  shows "bim_x1 v = 650 \<and> bim_x2 v = 1100"
  using assms unfolding bim_defs by linarith

lemma bim_vertex_feasible: "bim_feasible \<lparr>bim_x1 = 650, bim_x2 = 1100\<rparr>"
  by (simp add: bim_defs)

lemma bim_vertex_optimal:
  "optimal_max bim_feasible bim_profit \<lparr>bim_x1 = 650, bim_x2 = 1100\<rparr>"
  unfolding optimal_max_def
proof (intro conjI allI impI)
  show "bim_feasible \<lparr>bim_x1 = 650, bim_x2 = 1100\<rparr>" by (rule bim_vertex_feasible)
next
  fix v assume "bim_feasible v"
  then have "bim_profit v \<le> 17700" by (rule bim_profit_bound)
  then show "bim_profit v \<le> bim_profit \<lparr>bim_x1 = 650, bim_x2 = 1100\<rparr>"
    by (simp add: bim_profit_def)
qed

lemma bim_dual_bound: "bim_dual_feasible v \<Longrightarrow> 17700 \<le> bim_dual_obj v"
  unfolding bim_dual_defs by linarith

lemma bim_dual_point_optimal:
  "optimal_min bim_dual_feasible bim_dual_obj
     \<lparr>bim_y1 = 0, bim_y2 = 0, bim_y3 = 6, bim_y4 = 3 / 2\<rparr>"
  unfolding optimal_min_def
proof (intro conjI allI impI)
  show "bim_dual_feasible \<lparr>bim_y1 = 0, bim_y2 = 0, bim_y3 = 6, bim_y4 = 3 / 2\<rparr>"
    by (simp add: bim_dual_defs)
next
  fix v assume "bim_dual_feasible v"
  then have "17700 \<le> bim_dual_obj v" by (rule bim_dual_bound)
  then show "bim_dual_obj \<lparr>bim_y1 = 0, bim_y2 = 0, bim_y3 = 6, bim_y4 = 3 / 2\<rparr> \<le> bim_dual_obj v"
    by (simp add: bim_dual_obj_def)
qed

text \<open>
  Claim C4. The solve of the BIM model returns the unique optimum \<open>x = (650, 1100)\<close>
  with objective value 17700: a variable assignment is an optimal solution of the primal
  model exactly when it is that point. The dual model \<^verbatim>\<open>bim_dual.mod\<close> has an optimal
  solution, and every optimal solution of it has the objective value 17700 as well
  (strong duality).
\<close>

theorem bim_primal_dual_optimum:
  "(optimal_max bim_feasible bim_profit v \<longleftrightarrow> v = \<lparr>bim_x1 = 650, bim_x2 = 1100\<rparr>) \<and>
   bim_profit \<lparr>bim_x1 = 650, bim_x2 = 1100\<rparr> = 17700 \<and>
   (\<exists>u. optimal_min bim_dual_feasible bim_dual_obj u) \<and>
   (optimal_min bim_dual_feasible bim_dual_obj w \<longrightarrow> bim_dual_obj w = 17700)"
proof (intro conjI impI)
  show "optimal_max bim_feasible bim_profit v \<longleftrightarrow> v = \<lparr>bim_x1 = 650, bim_x2 = 1100\<rparr>"
  proof
    assume opt: "optimal_max bim_feasible bim_profit v"
    then have feas: "bim_feasible v"
      by (simp add: optimal_max_def)
    from opt bim_vertex_feasible
    have "bim_profit \<lparr>bim_x1 = 650, bim_x2 = 1100\<rparr> \<le> bim_profit v"
      unfolding optimal_max_def by blast
    then have "17700 \<le> bim_profit v"
      by (simp add: bim_profit_def)
    with bim_profit_bound [OF feas] have "bim_profit v = 17700"
      by linarith
    with feas have "bim_x1 v = 650 \<and> bim_x2 v = 1100"
      by (rule bim_profit_tight)
    then show "v = \<lparr>bim_x1 = 650, bim_x2 = 1100\<rparr>"
      by (cases v) simp
  next
    assume "v = \<lparr>bim_x1 = 650, bim_x2 = 1100\<rparr>"
    then show "optimal_max bim_feasible bim_profit v"
      using bim_vertex_optimal by simp
  qed
next
  show "bim_profit \<lparr>bim_x1 = 650, bim_x2 = 1100\<rparr> = 17700"
    by (simp add: bim_profit_def)
next
  show "\<exists>u. optimal_min bim_dual_feasible bim_dual_obj u"
    using bim_dual_point_optimal by blast
next
  assume opt: "optimal_min bim_dual_feasible bim_dual_obj w"
  then have "17700 \<le> bim_dual_obj w"
    using bim_dual_bound by (simp add: optimal_min_def)
  moreover from opt bim_dual_point_optimal
  have "bim_dual_obj w \<le> bim_dual_obj \<lparr>bim_y1 = 0, bim_y2 = 0, bim_y3 = 6, bim_y4 = 3 / 2\<rparr>"
    unfolding optimal_min_def by blast
  then have "bim_dual_obj w \<le> 17700"
    by (simp add: bim_dual_obj_def)
  ultimately show "bim_dual_obj w = 17700"
    by linarith
qed

theorem bim_primal_dual_optimum_witness:
  "optimal_max bim_feasible bim_profit \<lparr>bim_x1 = 650, bim_x2 = 1100\<rparr> \<and>
   optimal_min bim_dual_feasible bim_dual_obj
     \<lparr>bim_y1 = 0, bim_y2 = 0, bim_y3 = 6, bim_y4 = 3 / 2\<rparr> \<and>
   bim_dual_obj \<lparr>bim_y1 = 0, bim_y2 = 0, bim_y3 = 6, bim_y4 = 3 / 2\<rparr> = 17700"
  using bim_primal_dual_optimum
    [of "\<lparr>bim_x1 = 650, bim_x2 = 1100\<rparr>"
        "\<lparr>bim_y1 = 0, bim_y2 = 0, bim_y3 = 6, bim_y4 = 3 / 2\<rparr>"]
    bim_dual_point_optimal
  by simp

section \<open>Properties of the solver contract\<close>

text \<open>
  Whatever optimal solution a solve hands back, the objective value is the same. The
  assignments are the same only where the model has a single optimal solution, as the BIM
  model has; the regression model on the falling data set has several
  (\<open>falling_other_fit_optimal\<close> below).
\<close>

lemma optimal_max_value_unique:
  assumes "optimal_max feasible objective a" and "optimal_max feasible objective b"
  shows "objective a = objective b"
  using assms unfolding optimal_max_def by (meson order_antisym)

lemma optimal_min_value_unique:
  assumes "optimal_min feasible objective a" and "optimal_min feasible objective b"
  shows "objective a = objective b"
  using assms unfolding optimal_min_def by (meson order_antisym)

section \<open>Properties of the pop-up shop models\<close>

subsection \<open>Feasibility, constraint by constraint\<close>

lemma pop_feasible_iff:
  "pop_feasible m v \<longleftrightarrow>
     0 \<le> pop_x v \<and>
     (\<forall>s \<in> set (set_S m).
        0 \<le> pop_y v s \<and>
        pop_f v s = param_r m * pop_y v s + param_w m * (pop_x v - pop_y v s) - param_c m * pop_x v \<and>
        pop_y v s \<le> pop_x v \<and> pop_y v s \<le> param_d m s)"
  unfolding pop_feasible_def pop_bounds_def pop_constraints_def pop_profit_def
    pop_sales_less_than_order_def pop_sales_less_than_demand_def
  by (simp add: ball_Un) blast

lemma evpi_feasible_iff:
  "evpi_feasible m v \<longleftrightarrow>
     (\<forall>s \<in> set (set_S m).
        0 \<le> evpi_x v s \<and> 0 \<le> evpi_y v s \<and>
        evpi_f v s = param_r m * evpi_y v s + param_w m * (evpi_x v s - evpi_y v s)
           - param_c m * evpi_x v s \<and>
        evpi_y v s \<le> evpi_x v s \<and> evpi_y v s \<le> param_d m s)"
  unfolding evpi_feasible_def evpi_bounds_def evpi_constraints_def evpi_profit_def
    evpi_sales_less_than_order_def evpi_sales_less_than_demand_def
  by (simp add: ball_Un) blast

subsection \<open>The bound data\<close>

lemma set_data_simps [simp]:
  "param_r (set_data pr df) = price_r pr"
  "param_c (set_data pr df) = price_c pr"
  "param_w (set_data pr df) = price_w pr"
  "set_S (set_data pr df) = map fst df"
  "param_p (set_data pr df) = column probability df"
  "param_d (set_data pr df) = column demand df"
  by (simp_all add: set_data_def)

lemma column_at_row:
  assumes "distinct (map fst df)" and "(s, sc) \<in> set df"
  shows "column col df s = col sc"
  using assms by (simp add: column_def)




subsection \<open>Ordering a fixed quantity\<close>

lemma order_solution_feasible:
  assumes "0 \<le> x" and "\<forall>s \<in> set (set_S m). 0 \<le> param_d m s"
  shows "pop_feasible m (order_solution m x)"
  using assms unfolding pop_feasible_iff by (simp add: order_solution_def)


lemma expected_demand_empty:
  "expected_demand [] = Inl (KeyError ''probability'')"
  "EVM pr [] = Inl (KeyError ''probability'')"
  by (simp_all add: EVM_def expected_demand_def)








subsection \<open>Existence of the optima\<close>









subsection \<open>The notebook's instance\<close>

lemma notebook_model_simps:
  "param_r notebook_model = 40"
  "param_c notebook_model = 12"
  "param_w notebook_model = 2"
  "set_S notebook_model = [''sunny skies'', ''good weather'', ''poor weather'']"
  "param_p notebook_model ''sunny skies'' = 1 / 10"
  "param_p notebook_model ''good weather'' = 6 / 10"
  "param_p notebook_model ''poor weather'' = 3 / 10"
  "param_d notebook_model ''sunny skies'' = 650"
  "param_d notebook_model ''good weather'' = 400"
  "param_d notebook_model ''poor weather'' = 200"
  by (simp_all add: notebook_model_def notebook_prices_def solve_scenarios_def column_def)

lemma solve_scenarios_same: "solve_scenarios = notebook_scenarios"
  by (simp add: solve_scenarios_def notebook_scenarios_def)



lemma notebook_expected_demand: "expected_demand notebook_scenarios = Inr 365"
  by (simp add: expected_demand_def notebook_scenarios_def)


lemma notebook_EV_bound:
  assumes "pop_feasible notebook_model v"
  shows "pop_EV notebook_model v \<le> 8920"
  using assms unfolding pop_feasible_iff pop_EV_def
  by (simp add: notebook_model_simps) argo

lemma notebook_EV_tight:
  assumes "pop_feasible notebook_model v" and "pop_EV notebook_model v = 8920"
  shows "pop_x v = 400 \<and> pop_y v ''sunny skies'' = 400 \<and> pop_y v ''good weather'' = 400
    \<and> pop_y v ''poor weather'' = 200"
  using assms unfolding pop_feasible_iff pop_EV_def
  by (simp add: notebook_model_simps) argo

lemma notebook_order_feasible: "pop_feasible notebook_model (order_solution notebook_model 400)"
  by (rule order_solution_feasible) (simp_all add: notebook_model_simps)

lemma notebook_order_value: "pop_EV notebook_model (order_solution notebook_model 400) = 8920"
  by (simp add: pop_EV_def order_solution_def notebook_model_simps)

lemma notebook_order_optimal:
  "optimal_max (pop_feasible notebook_model) (pop_EV notebook_model)
     (order_solution notebook_model 400)"
  unfolding optimal_max_def
  using notebook_order_feasible notebook_EV_bound by (simp add: notebook_order_value)

lemma notebook_EVSS:
  assumes "optimal_max (pop_feasible notebook_model) (pop_EV notebook_model) v"
  shows "pop_EV notebook_model v = 8920"
  using optimal_max_value_unique [OF assms notebook_order_optimal]
  by (simp add: notebook_order_value)














subsection \<open>A single scenario\<close>









subsection \<open>The continuous model and the integer formulation\<close>

lemma notebook_order_integral:
  "pop_integer_feasible notebook_model (order_solution notebook_model 400)"
  unfolding pop_integer_feasible_def
  using notebook_order_feasible by (simp add: order_solution_def notebook_model_simps)

lemma notebook_optimal_integral:
  assumes opt: "optimal_max (pop_feasible notebook_model) (pop_EV notebook_model) v"
  shows "pop_x v = 400 \<and> pop_y v ''sunny skies'' = 400 \<and> pop_y v ''good weather'' = 400
    \<and> pop_y v ''poor weather'' = 200"
    and "pop_integer_feasible notebook_model v"
proof -
  from opt have feas: "pop_feasible notebook_model v"
    by (simp add: optimal_max_def)
  show vals: "pop_x v = 400 \<and> pop_y v ''sunny skies'' = 400 \<and> pop_y v ''good weather'' = 400
    \<and> pop_y v ''poor weather'' = 200"
    by (rule notebook_EV_tight [OF feas notebook_EVSS [OF opt]])
  with feas show "pop_integer_feasible notebook_model v"
    by (simp add: pop_integer_feasible_def notebook_model_simps)
qed

lemma notebook_integer_optimal_iff:
  "optimal_max (pop_integer_feasible notebook_model) (pop_EV notebook_model) v
   \<longleftrightarrow> optimal_max (pop_feasible notebook_model) (pop_EV notebook_model) v"
proof
  assume int: "optimal_max (pop_integer_feasible notebook_model) (pop_EV notebook_model) v"
  then have feas: "pop_feasible notebook_model v"
    by (simp add: optimal_max_def pop_integer_feasible_def)
  from int notebook_order_integral
  have "pop_EV notebook_model (order_solution notebook_model 400) \<le> pop_EV notebook_model v"
    unfolding optimal_max_def by blast
  then have "8920 \<le> pop_EV notebook_model v"
    by (simp add: notebook_order_value)
  with feas show "optimal_max (pop_feasible notebook_model) (pop_EV notebook_model) v"
    unfolding optimal_max_def using notebook_EV_bound by (meson order_trans)
next
  assume rel: "optimal_max (pop_feasible notebook_model) (pop_EV notebook_model) v"
  then have "pop_integer_feasible notebook_model v"
    by (rule notebook_optimal_integral(2))
  with rel show "optimal_max (pop_integer_feasible notebook_model) (pop_EV notebook_model) v"
    unfolding optimal_max_def pop_integer_feasible_def by blast
qed

text \<open>
  Claim C10. \<^verbatim>\<open>pop.mod\<close> declares \<open>x\<close> and \<open>y\<close> as non-negative reals, not integers
  as the formulation of the text does. For the notebook's data every optimal solution of
  this continuous model orders \<open>x = 400\<close>, sells 400, 400 and 200, is integral and has the
  objective value 8920; an assignment is optimal for the integer program (the same
  constraints, with \<open>x\<close> and \<open>y\<^sub>s\<close> integral) exactly when it is optimal for the
  continuous model, so the two are equivalent on this instance, with the optimal value
  8920; and both optima exist.
\<close>

theorem continuous_model_matches_integer_program:
  "(optimal_max (pop_feasible notebook_model) (pop_EV notebook_model) v \<longrightarrow>
      pop_x v = 400 \<and> pop_y v ''sunny skies'' = 400 \<and> pop_y v ''good weather'' = 400 \<and>
      pop_y v ''poor weather'' = 200 \<and> pop_integer_feasible notebook_model v \<and>
      pop_EV notebook_model v = 8920) \<and>
   (optimal_max (pop_integer_feasible notebook_model) (pop_EV notebook_model) z
      \<longleftrightarrow> optimal_max (pop_feasible notebook_model) (pop_EV notebook_model) z) \<and>
   (optimal_max (pop_integer_feasible notebook_model) (pop_EV notebook_model) z \<longrightarrow>
      pop_x z = 400 \<and> pop_EV notebook_model z = 8920) \<and>
   (\<exists>a. optimal_max (pop_feasible notebook_model) (pop_EV notebook_model) a) \<and>
   (\<exists>a. optimal_max (pop_integer_feasible notebook_model) (pop_EV notebook_model) a)"
proof (intro conjI impI)
  assume opt: "optimal_max (pop_feasible notebook_model) (pop_EV notebook_model) v"
  from notebook_optimal_integral(1) [OF opt]
  show "pop_x v = 400" and "pop_y v ''sunny skies'' = 400"
    and "pop_y v ''good weather'' = 400" and "pop_y v ''poor weather'' = 200"
    by simp_all
  show "pop_integer_feasible notebook_model v"
    by (rule notebook_optimal_integral(2) [OF opt])
  show "pop_EV notebook_model v = 8920"
    by (rule notebook_EVSS [OF opt])
next
  show "optimal_max (pop_integer_feasible notebook_model) (pop_EV notebook_model) z
      \<longleftrightarrow> optimal_max (pop_feasible notebook_model) (pop_EV notebook_model) z"
    by (rule notebook_integer_optimal_iff)
next
  assume "optimal_max (pop_integer_feasible notebook_model) (pop_EV notebook_model) z"
  then have opt: "optimal_max (pop_feasible notebook_model) (pop_EV notebook_model) z"
    by (simp add: notebook_integer_optimal_iff)
  from notebook_optimal_integral(1) [OF opt] show "pop_x z = 400"
    by simp
  show "pop_EV notebook_model z = 8920"
    by (rule notebook_EVSS [OF opt])
next
  show "\<exists>a. optimal_max (pop_feasible notebook_model) (pop_EV notebook_model) a"
    using notebook_order_optimal by blast
  then show "\<exists>a. optimal_max (pop_integer_feasible notebook_model) (pop_EV notebook_model) a"
    by (simp add: notebook_integer_optimal_iff)
qed

theorem continuous_model_matches_integer_program_witness:
  "optimal_max (pop_feasible notebook_model) (pop_EV notebook_model)
     (order_solution notebook_model 400) \<and>
   optimal_max (pop_integer_feasible notebook_model) (pop_EV notebook_model)
     (order_solution notebook_model 400) \<and>
   pop_x (order_solution notebook_model 400) = 400 \<and>
   pop_integer_feasible notebook_model (order_solution notebook_model 400) \<and>
   pop_EV notebook_model (order_solution notebook_model 400) = 8920"
  using continuous_model_matches_integer_program
    [of "order_solution notebook_model 400" "order_solution notebook_model 400"]
    notebook_order_optimal
  by blast

subsection \<open>One constraint per scenario\<close>

lemma pop_families:
  "family ''profit'' (pop_constraints m) = set_S m"
  "family ''sales_less_than_order'' (pop_constraints m) = set_S m"
  "family ''sales_less_than_demand'' (pop_constraints m) = set_S m"
  by (simp_all add: family_def pop_constraints_def pop_profit_def pop_sales_less_than_order_def
      pop_sales_less_than_demand_def filter_map comp_def)

lemma evpi_families:
  "family ''profit'' (evpi_constraints m) = set_S m"
  "family ''sales_less_than_order'' (evpi_constraints m) = set_S m"
  "family ''sales_less_than_demand'' (evpi_constraints m) = set_S m"
  by (simp_all add: family_def evpi_constraints_def evpi_profit_def evpi_sales_less_than_order_def
      evpi_sales_less_than_demand_def filter_map comp_def)

lemma pop_constraint_indices: "set (map con_index (pop_constraints m)) = set (set_S m)"
  by (auto simp: pop_constraints_def pop_profit_def pop_sales_less_than_order_def
      pop_sales_less_than_demand_def image_iff)

lemma evpi_constraint_indices: "set (map con_index (evpi_constraints m)) = set (set_S m)"
  by (auto simp: evpi_constraints_def evpi_profit_def evpi_sales_less_than_order_def
      evpi_sales_less_than_demand_def image_iff)

lemma constraint_counts:
  "length (pop_constraints m) = 3 * length (set_S m)"
  "length (evpi_constraints m) = 3 * length (set_S m)"
  by (simp_all add: pop_constraints_def pop_profit_def pop_sales_less_than_order_def
      pop_sales_less_than_demand_def evpi_constraints_def evpi_profit_def
      evpi_sales_less_than_order_def evpi_sales_less_than_demand_def)

lemma filter_instance:
  assumes "distinct ks" and "s \<in> set ks"
  shows "filter (\<lambda>k. con_name k = N \<and> con_index k = s)
      (map (\<lambda>t. \<lparr>con_name = N', con_index = t, con_holds = H t\<rparr>) ks)
    = (if N' = N then [\<lparr>con_name = N', con_index = s, con_holds = H s\<rparr>] else [])"
  using assms by (induction ks) (auto simp: filter_empty_conv)

lemma pop_instances:
  assumes dist: "distinct (map fst df)" and row: "(s, sc) \<in> set df"
  shows "filter (\<lambda>k. con_name k = ''profit'' \<and> con_index k = s)
        (pop_constraints (set_data pr df))
      = [\<lparr>con_name = ''profit'', con_index = s,
          con_holds = (\<lambda>v. pop_f v s =
            price_r pr * pop_y v s + price_w pr * (pop_x v - pop_y v s) - price_c pr * pop_x v)\<rparr>]"
    and "filter (\<lambda>k. con_name k = ''sales_less_than_order'' \<and> con_index k = s)
        (pop_constraints (set_data pr df))
      = [\<lparr>con_name = ''sales_less_than_order'', con_index = s,
          con_holds = (\<lambda>v. pop_y v s \<le> pop_x v)\<rparr>]"
    and "filter (\<lambda>k. con_name k = ''sales_less_than_demand'' \<and> con_index k = s)
        (pop_constraints (set_data pr df))
      = [\<lparr>con_name = ''sales_less_than_demand'', con_index = s,
          con_holds = (\<lambda>v. pop_y v s \<le> demand sc)\<rparr>]"
proof -
  from row have mem: "s \<in> set (map fst df)"
    by force
  have d: "column demand df s = demand sc"
    by (rule column_at_row [OF dist row])
  note inst = filter_instance [OF dist mem]
  show "filter (\<lambda>k. con_name k = ''profit'' \<and> con_index k = s)
        (pop_constraints (set_data pr df))
      = [\<lparr>con_name = ''profit'', con_index = s,
          con_holds = (\<lambda>v. pop_f v s =
            price_r pr * pop_y v s + price_w pr * (pop_x v - pop_y v s) - price_c pr * pop_x v)\<rparr>]"
    by (simp add: pop_constraints_def pop_profit_def pop_sales_less_than_order_def
        pop_sales_less_than_demand_def inst del: map_map)
  show "filter (\<lambda>k. con_name k = ''sales_less_than_order'' \<and> con_index k = s)
        (pop_constraints (set_data pr df))
      = [\<lparr>con_name = ''sales_less_than_order'', con_index = s,
          con_holds = (\<lambda>v. pop_y v s \<le> pop_x v)\<rparr>]"
    by (simp add: pop_constraints_def pop_profit_def pop_sales_less_than_order_def
        pop_sales_less_than_demand_def inst del: map_map)
  show "filter (\<lambda>k. con_name k = ''sales_less_than_demand'' \<and> con_index k = s)
        (pop_constraints (set_data pr df))
      = [\<lparr>con_name = ''sales_less_than_demand'', con_index = s,
          con_holds = (\<lambda>v. pop_y v s \<le> demand sc)\<rparr>]"
    by (simp add: pop_constraints_def pop_profit_def pop_sales_less_than_order_def
        pop_sales_less_than_demand_def inst d del: map_map)
qed

lemma evpi_instances:
  assumes dist: "distinct (map fst df)" and row: "(s, sc) \<in> set df"
  shows "filter (\<lambda>k. con_name k = ''profit'' \<and> con_index k = s)
        (evpi_constraints (set_data pr df))
      = [\<lparr>con_name = ''profit'', con_index = s,
          con_holds = (\<lambda>u. evpi_f u s =
            price_r pr * evpi_y u s + price_w pr * (evpi_x u s - evpi_y u s)
              - price_c pr * evpi_x u s)\<rparr>]"
    and "filter (\<lambda>k. con_name k = ''sales_less_than_order'' \<and> con_index k = s)
        (evpi_constraints (set_data pr df))
      = [\<lparr>con_name = ''sales_less_than_order'', con_index = s,
          con_holds = (\<lambda>u. evpi_y u s \<le> evpi_x u s)\<rparr>]"
    and "filter (\<lambda>k. con_name k = ''sales_less_than_demand'' \<and> con_index k = s)
        (evpi_constraints (set_data pr df))
      = [\<lparr>con_name = ''sales_less_than_demand'', con_index = s,
          con_holds = (\<lambda>u. evpi_y u s \<le> demand sc)\<rparr>]"
proof -
  from row have mem: "s \<in> set (map fst df)"
    by force
  have d: "column demand df s = demand sc"
    by (rule column_at_row [OF dist row])
  note inst = filter_instance [OF dist mem]
  show "filter (\<lambda>k. con_name k = ''profit'' \<and> con_index k = s)
        (evpi_constraints (set_data pr df))
      = [\<lparr>con_name = ''profit'', con_index = s,
          con_holds = (\<lambda>u. evpi_f u s =
            price_r pr * evpi_y u s + price_w pr * (evpi_x u s - evpi_y u s)
              - price_c pr * evpi_x u s)\<rparr>]"
    by (simp add: evpi_constraints_def evpi_profit_def evpi_sales_less_than_order_def
        evpi_sales_less_than_demand_def inst del: map_map)
  show "filter (\<lambda>k. con_name k = ''sales_less_than_order'' \<and> con_index k = s)
        (evpi_constraints (set_data pr df))
      = [\<lparr>con_name = ''sales_less_than_order'', con_index = s,
          con_holds = (\<lambda>u. evpi_y u s \<le> evpi_x u s)\<rparr>]"
    by (simp add: evpi_constraints_def evpi_profit_def evpi_sales_less_than_order_def
        evpi_sales_less_than_demand_def inst del: map_map)
  show "filter (\<lambda>k. con_name k = ''sales_less_than_demand'' \<and> con_index k = s)
        (evpi_constraints (set_data pr df))
      = [\<lparr>con_name = ''sales_less_than_demand'', con_index = s,
          con_holds = (\<lambda>u. evpi_y u s \<le> demand sc)\<rparr>]"
    by (simp add: evpi_constraints_def evpi_profit_def evpi_sales_less_than_order_def
        evpi_sales_less_than_demand_def inst d del: map_map)
qed

lemma sum_over_rows:
  assumes dist: "distinct (map fst df)"
  shows "(\<Sum>s\<leftarrow>map fst df. column col df s * h s) = (\<Sum>row\<leftarrow>df. col (snd row) * h (fst row))"
proof -
  have rows: "map (\<lambda>row. column col df (fst row) * h (fst row)) df
      = map (\<lambda>row. col (snd row) * h (fst row)) df"
  proof (rule map_cong [OF refl])
    fix row assume "row \<in> set df"
    then have "(fst row, snd row) \<in> set df" by simp
    then have "column col df (fst row) = col (snd row)"
      by (rule column_at_row [OF dist])
    then show "column col df (fst row) * h (fst row) = col (snd row) * h (fst row)"
      by simp
  qed
  have "(\<Sum>s\<leftarrow>map fst df. column col df s * h s)
      = sum_list (map (\<lambda>row. column col df (fst row) * h (fst row)) df)"
    by (simp add: comp_def)
  then show ?thesis
    by (simp only: rows)
qed

lemma pop_feasible_rows:
  assumes dist: "distinct (map fst df)"
  shows "pop_feasible (set_data pr df) v \<longleftrightarrow>
     0 \<le> pop_x v \<and>
     (\<forall>row \<in> set df.
        0 \<le> pop_y v (fst row) \<and>
        pop_f v (fst row) = price_r pr * pop_y v (fst row)
          + price_w pr * (pop_x v - pop_y v (fst row)) - price_c pr * pop_x v \<and>
        pop_y v (fst row) \<le> pop_x v \<and> pop_y v (fst row) \<le> demand (snd row))"
proof -
  have d: "column demand df (fst row) = demand (snd row)" if "row \<in> set df" for row
    using that column_at_row [OF dist, of "fst row" "snd row"] by simp
  show ?thesis
    unfolding pop_feasible_iff by (simp add: d)
qed

lemma evpi_feasible_rows:
  assumes dist: "distinct (map fst df)"
  shows "evpi_feasible (set_data pr df) u \<longleftrightarrow>
     (\<forall>row \<in> set df.
        0 \<le> evpi_x u (fst row) \<and> 0 \<le> evpi_y u (fst row) \<and>
        evpi_f u (fst row) = price_r pr * evpi_y u (fst row)
          + price_w pr * (evpi_x u (fst row) - evpi_y u (fst row))
          - price_c pr * evpi_x u (fst row) \<and>
        evpi_y u (fst row) \<le> evpi_x u (fst row) \<and> evpi_y u (fst row) \<le> demand (snd row))"
proof -
  have d: "column demand df (fst row) = demand (snd row)" if "row \<in> set df" for row
    using that column_at_row [OF dist, of "fst row" "snd row"] by simp
  show ?thesis
    unfolding evpi_feasible_iff by (simp add: d)
qed

lemma EVM_over_rows:
  assumes "df \<noteq> []"
  shows "\<exists>e. expected_demand df = Inr e \<and>
    e = (\<Sum>row\<leftarrow>df. probability (snd row) * demand (snd row)) \<and>
    EVM pr df = Inr (\<Sum>row\<leftarrow>df. probability (snd row) * df_profit pr e (snd row))"
  using assms by (simp add: EVM_def expected_demand_def)

lemma EVM_empty: "EVM pr [] = Inl (KeyError ''probability'')"
  by (simp add: EVM_def expected_demand_def)

text \<open>
  Claim C5. For every scenario dictionary bound to \<^verbatim>\<open>pop.mod\<close> or \<^verbatim>\<open>pop_evpi.mod\<close>,
  with distinct keys, and every scenario \<open>s\<close> of it: among the constraints of the bound
  model there is exactly one instance of \<^verbatim>\<open>profit\<close>, one of \<^verbatim>\<open>sales_less_than_order\<close>
  and one of \<^verbatim>\<open>sales_less_than_demand\<close> with the index \<open>s\<close>, and it is the constraint
  of the model text on the variables of \<open>s\<close>, with the prices bound and the demand of the
  row of \<open>s\<close>. Each of the three constraints is indexed by the keys of the dictionary, in
  order, the bound model has three constraints per row, and no constraint has another
  index. A point is feasible exactly when it satisfies the bounds and the three
  constraints of every row. The objective \<open>EV\<close> of both models is the sum over the same
  rows, weighted with the probability of the row, and so is the expected value of the mean
  solution that the data frame gives for a dictionary that is not empty (for the empty one
  the cell raises and no aggregate is computed). In the notebook the models are bound to
  the dictionary of the solve cell and the expected value of the mean solution is computed
  from the dictionary of an earlier cell: the two have the same keys, so the constraints
  are indexed by the scenarios the aggregates run over.
\<close>

theorem constraints_once_per_scenario:
  "(distinct (map fst df) \<and> (s, sc) \<in> set df \<longrightarrow>
      filter (\<lambda>k. con_name k = ''profit'' \<and> con_index k = s)
          (pop_constraints (set_data pr df))
        = [\<lparr>con_name = ''profit'', con_index = s,
            con_holds = (\<lambda>v. pop_f v s =
              price_r pr * pop_y v s + price_w pr * (pop_x v - pop_y v s)
                - price_c pr * pop_x v)\<rparr>] \<and>
      filter (\<lambda>k. con_name k = ''sales_less_than_order'' \<and> con_index k = s)
          (pop_constraints (set_data pr df))
        = [\<lparr>con_name = ''sales_less_than_order'', con_index = s,
            con_holds = (\<lambda>v. pop_y v s \<le> pop_x v)\<rparr>] \<and>
      filter (\<lambda>k. con_name k = ''sales_less_than_demand'' \<and> con_index k = s)
          (pop_constraints (set_data pr df))
        = [\<lparr>con_name = ''sales_less_than_demand'', con_index = s,
            con_holds = (\<lambda>v. pop_y v s \<le> demand sc)\<rparr>] \<and>
      filter (\<lambda>k. con_name k = ''profit'' \<and> con_index k = s)
          (evpi_constraints (set_data pr df))
        = [\<lparr>con_name = ''profit'', con_index = s,
            con_holds = (\<lambda>u. evpi_f u s =
              price_r pr * evpi_y u s + price_w pr * (evpi_x u s - evpi_y u s)
                - price_c pr * evpi_x u s)\<rparr>] \<and>
      filter (\<lambda>k. con_name k = ''sales_less_than_order'' \<and> con_index k = s)
          (evpi_constraints (set_data pr df))
        = [\<lparr>con_name = ''sales_less_than_order'', con_index = s,
            con_holds = (\<lambda>u. evpi_y u s \<le> evpi_x u s)\<rparr>] \<and>
      filter (\<lambda>k. con_name k = ''sales_less_than_demand'' \<and> con_index k = s)
          (evpi_constraints (set_data pr df))
        = [\<lparr>con_name = ''sales_less_than_demand'', con_index = s,
            con_holds = (\<lambda>u. evpi_y u s \<le> demand sc)\<rparr>]) \<and>
   family ''profit'' (pop_constraints (set_data pr df)) = map fst df \<and>
   family ''sales_less_than_order'' (pop_constraints (set_data pr df)) = map fst df \<and>
   family ''sales_less_than_demand'' (pop_constraints (set_data pr df)) = map fst df \<and>
   family ''profit'' (evpi_constraints (set_data pr df)) = map fst df \<and>
   family ''sales_less_than_order'' (evpi_constraints (set_data pr df)) = map fst df \<and>
   family ''sales_less_than_demand'' (evpi_constraints (set_data pr df)) = map fst df \<and>
   length (pop_constraints (set_data pr df)) = 3 * length df \<and>
   length (evpi_constraints (set_data pr df)) = 3 * length df \<and>
   set (map con_index (pop_constraints (set_data pr df))) = set (map fst df) \<and>
   set (map con_index (evpi_constraints (set_data pr df))) = set (map fst df) \<and>
   (distinct (map fst df) \<longrightarrow>
      (pop_feasible (set_data pr df) v \<longleftrightarrow>
         0 \<le> pop_x v \<and>
         (\<forall>row \<in> set df.
            0 \<le> pop_y v (fst row) \<and>
            pop_f v (fst row) = price_r pr * pop_y v (fst row)
              + price_w pr * (pop_x v - pop_y v (fst row)) - price_c pr * pop_x v \<and>
            pop_y v (fst row) \<le> pop_x v \<and> pop_y v (fst row) \<le> demand (snd row))) \<and>
      (evpi_feasible (set_data pr df) u \<longleftrightarrow>
         (\<forall>row \<in> set df.
            0 \<le> evpi_x u (fst row) \<and> 0 \<le> evpi_y u (fst row) \<and>
            evpi_f u (fst row) = price_r pr * evpi_y u (fst row)
              + price_w pr * (evpi_x u (fst row) - evpi_y u (fst row))
              - price_c pr * evpi_x u (fst row) \<and>
            evpi_y u (fst row) \<le> evpi_x u (fst row) \<and>
            evpi_y u (fst row) \<le> demand (snd row))) \<and>
      pop_EV (set_data pr df) v = (\<Sum>row\<leftarrow>df. probability (snd row) * pop_f v (fst row)) \<and>
      evpi_EV (set_data pr df) u = (\<Sum>row\<leftarrow>df. probability (snd row) * evpi_f u (fst row))) \<and>
   (df \<noteq> [] \<longrightarrow>
      (\<exists>e. expected_demand df = Inr e \<and>
         e = (\<Sum>row\<leftarrow>df. probability (snd row) * demand (snd row)) \<and>
         EVM pr df = Inr (\<Sum>row\<leftarrow>df. probability (snd row) * df_profit pr e (snd row)))) \<and>
   EVM pr [] = Inl (KeyError ''probability'') \<and>
   notebook_model = set_data notebook_prices solve_scenarios \<and>
   map fst solve_scenarios = map fst notebook_scenarios \<and>
   set (map con_index (pop_constraints notebook_model)) = set (map fst notebook_scenarios) \<and>
   set (map con_index (evpi_constraints notebook_model)) = set (map fst notebook_scenarios)"
proof (intro conjI impI)
  assume h: "distinct (map fst df) \<and> (s, sc) \<in> set df"
  then have dist: "distinct (map fst df)" and row: "(s, sc) \<in> set df"
    by simp_all
  show "filter (\<lambda>k. con_name k = ''profit'' \<and> con_index k = s)
          (pop_constraints (set_data pr df))
        = [\<lparr>con_name = ''profit'', con_index = s,
            con_holds = (\<lambda>v. pop_f v s =
              price_r pr * pop_y v s + price_w pr * (pop_x v - pop_y v s)
                - price_c pr * pop_x v)\<rparr>]"
    by (rule pop_instances(1) [OF dist row])
  show "filter (\<lambda>k. con_name k = ''sales_less_than_order'' \<and> con_index k = s)
          (pop_constraints (set_data pr df))
        = [\<lparr>con_name = ''sales_less_than_order'', con_index = s,
            con_holds = (\<lambda>v. pop_y v s \<le> pop_x v)\<rparr>]"
    by (rule pop_instances(2) [OF dist row])
  show "filter (\<lambda>k. con_name k = ''sales_less_than_demand'' \<and> con_index k = s)
          (pop_constraints (set_data pr df))
        = [\<lparr>con_name = ''sales_less_than_demand'', con_index = s,
            con_holds = (\<lambda>v. pop_y v s \<le> demand sc)\<rparr>]"
    by (rule pop_instances(3) [OF dist row])
  show "filter (\<lambda>k. con_name k = ''profit'' \<and> con_index k = s)
          (evpi_constraints (set_data pr df))
        = [\<lparr>con_name = ''profit'', con_index = s,
            con_holds = (\<lambda>u. evpi_f u s =
              price_r pr * evpi_y u s + price_w pr * (evpi_x u s - evpi_y u s)
                - price_c pr * evpi_x u s)\<rparr>]"
    by (rule evpi_instances(1) [OF dist row])
  show "filter (\<lambda>k. con_name k = ''sales_less_than_order'' \<and> con_index k = s)
          (evpi_constraints (set_data pr df))
        = [\<lparr>con_name = ''sales_less_than_order'', con_index = s,
            con_holds = (\<lambda>u. evpi_y u s \<le> evpi_x u s)\<rparr>]"
    by (rule evpi_instances(2) [OF dist row])
  show "filter (\<lambda>k. con_name k = ''sales_less_than_demand'' \<and> con_index k = s)
          (evpi_constraints (set_data pr df))
        = [\<lparr>con_name = ''sales_less_than_demand'', con_index = s,
            con_holds = (\<lambda>u. evpi_y u s \<le> demand sc)\<rparr>]"
    by (rule evpi_instances(3) [OF dist row])
next
  assume dist: "distinct (map fst df)"
  show "pop_feasible (set_data pr df) v \<longleftrightarrow>
         0 \<le> pop_x v \<and>
         (\<forall>row \<in> set df.
            0 \<le> pop_y v (fst row) \<and>
            pop_f v (fst row) = price_r pr * pop_y v (fst row)
              + price_w pr * (pop_x v - pop_y v (fst row)) - price_c pr * pop_x v \<and>
            pop_y v (fst row) \<le> pop_x v \<and> pop_y v (fst row) \<le> demand (snd row))"
    by (rule pop_feasible_rows [OF dist])
  show "evpi_feasible (set_data pr df) u \<longleftrightarrow>
         (\<forall>row \<in> set df.
            0 \<le> evpi_x u (fst row) \<and> 0 \<le> evpi_y u (fst row) \<and>
            evpi_f u (fst row) = price_r pr * evpi_y u (fst row)
              + price_w pr * (evpi_x u (fst row) - evpi_y u (fst row))
              - price_c pr * evpi_x u (fst row) \<and>
            evpi_y u (fst row) \<le> evpi_x u (fst row) \<and>
            evpi_y u (fst row) \<le> demand (snd row))"
    by (rule evpi_feasible_rows [OF dist])
  show "pop_EV (set_data pr df) v = (\<Sum>row\<leftarrow>df. probability (snd row) * pop_f v (fst row))"
    using sum_over_rows [OF dist, of probability "pop_f v"] by (simp add: pop_EV_def)
  show "evpi_EV (set_data pr df) u = (\<Sum>row\<leftarrow>df. probability (snd row) * evpi_f u (fst row))"
    using sum_over_rows [OF dist, of probability "evpi_f u"] by (simp add: evpi_EV_def)
next
  assume "df \<noteq> []"
  then show "\<exists>e. expected_demand df = Inr e \<and>
         e = (\<Sum>row\<leftarrow>df. probability (snd row) * demand (snd row)) \<and>
         EVM pr df = Inr (\<Sum>row\<leftarrow>df. probability (snd row) * df_profit pr e (snd row))"
    by (rule EVM_over_rows)
next
  show "EVM pr [] = Inl (KeyError ''probability'')"
    by (rule EVM_empty)
next
  show "notebook_model = set_data notebook_prices solve_scenarios"
    by (rule notebook_model_def)
next
  show keys: "map fst solve_scenarios = map fst notebook_scenarios"
    by (simp add: solve_scenarios_same)
  show "set (map con_index (pop_constraints notebook_model)) = set (map fst notebook_scenarios)"
    using pop_constraint_indices [of notebook_model] keys by (simp add: notebook_model_def)
  show "set (map con_index (evpi_constraints notebook_model)) = set (map fst notebook_scenarios)"
    using evpi_constraint_indices [of notebook_model] keys by (simp add: notebook_model_def)
next
  show "set (map con_index (pop_constraints (set_data pr df))) = set (map fst df)"
    using pop_constraint_indices [of "set_data pr df"] by simp
next
  show "set (map con_index (evpi_constraints (set_data pr df))) = set (map fst df)"
    using evpi_constraint_indices [of "set_data pr df"] by simp
qed (simp_all add: pop_families evpi_families constraint_counts)

theorem constraints_once_per_scenario_witness:
  "distinct (map fst solve_scenarios) \<and>
   (''good weather'', \<lparr>probability = 0.6, demand = 400\<rparr>) \<in> set solve_scenarios \<and>
   filter (\<lambda>k. con_name k = ''sales_less_than_demand'' \<and> con_index k = ''good weather'')
       (pop_constraints notebook_model)
     = [\<lparr>con_name = ''sales_less_than_demand'', con_index = ''good weather'',
         con_holds = (\<lambda>v. pop_y v ''good weather'' \<le> 400)\<rparr>] \<and>
   filter (\<lambda>k. con_name k = ''sales_less_than_demand'' \<and> con_index k = ''good weather'')
       (evpi_constraints notebook_model)
     = [\<lparr>con_name = ''sales_less_than_demand'', con_index = ''good weather'',
         con_holds = (\<lambda>u. evpi_y u ''good weather'' \<le> 400)\<rparr>] \<and>
   family ''profit'' (pop_constraints notebook_model)
     = [''sunny skies'', ''good weather'', ''poor weather''] \<and>
   length (pop_constraints notebook_model) = 9 \<and>
   solve_scenarios \<noteq> [] \<and>
   expected_demand solve_scenarios = Inr 365"
proof -
  have keys: "map fst solve_scenarios = [''sunny skies'', ''good weather'', ''poor weather'']"
    and dist: "distinct (map fst solve_scenarios)"
    and row: "(''good weather'', \<lparr>probability = 0.6, demand = 400\<rparr>) \<in> set solve_scenarios"
    and rows: "solve_scenarios \<noteq> []"
    and count: "length solve_scenarios = 3"
    and mean: "(\<Sum>row\<leftarrow>solve_scenarios. probability (snd row) * demand (snd row)) = 365"
    by (simp_all add: solve_scenarios_def)
  have hyp: "distinct (map fst solve_scenarios) \<and>
      (''good weather'', \<lparr>probability = 0.6, demand = 400\<rparr>) \<in> set solve_scenarios"
    by (intro conjI dist row)
  note at_input = constraints_once_per_scenario
    [where df = solve_scenarios and s = "''good weather''"
      and sc = "\<lparr>probability = 0.6, demand = 400\<rparr>" and pr = notebook_prices,
      folded notebook_model_def]
  note instances = mp [OF conjunct1 [OF at_input] hyp]
  note rest = conjunct2 [OF at_input]
  have pop: "filter (\<lambda>k. con_name k = ''sales_less_than_demand'' \<and> con_index k = ''good weather'')
       (pop_constraints notebook_model)
     = [\<lparr>con_name = ''sales_less_than_demand'', con_index = ''good weather'',
         con_holds = (\<lambda>v. pop_y v ''good weather'' \<le> 400)\<rparr>]"
    using conjunct1 [OF conjunct2 [OF conjunct2 [OF instances]]] by simp
  have evpi: "filter (\<lambda>k. con_name k = ''sales_less_than_demand'' \<and> con_index k = ''good weather'')
       (evpi_constraints notebook_model)
     = [\<lparr>con_name = ''sales_less_than_demand'', con_index = ''good weather'',
         con_holds = (\<lambda>u. evpi_y u ''good weather'' \<le> 400)\<rparr>]"
    using conjunct2 [OF conjunct2 [OF conjunct2 [OF conjunct2 [OF conjunct2 [OF instances]]]]] by simp
  have fam: "family ''profit'' (pop_constraints notebook_model)
     = [''sunny skies'', ''good weather'', ''poor weather'']"
    using conjunct1 [OF rest] by (simp only: keys)
  have len: "length (pop_constraints notebook_model) = 9"
    using conjunct1 [OF conjunct2 [OF conjunct2 [OF conjunct2 [OF conjunct2 [OF conjunct2 [OF conjunct2 [OF rest]]]]]]] by (simp only: count)
  from mp [OF conjunct1 [OF conjunct2 [OF conjunct2 [OF conjunct2 [OF conjunct2 [OF conjunct2 [OF conjunct2 [OF conjunct2 [OF conjunct2 [OF conjunct2 [OF conjunct2 [OF conjunct2 [OF rest]]]]]]]]]]]] rows]
  have agg: "expected_demand solve_scenarios = Inr 365"
    by (auto simp only: mean)
  show ?thesis
    by (intro conjI dist row pop evpi fam len rows agg)
qed

subsection \<open>No validation of the scenario weights\<close>

lemma underweight_not_valid: "\<not> spec_valid_scenario_set underweight_scenarios"
  by (simp add: spec_valid_scenario_set_def underweight_scenarios_def)

lemma underweight_sum: "(\<Sum>row\<leftarrow>underweight_scenarios. probability (snd row)) = 9 / 10"
  by (simp add: underweight_scenarios_def)

lemma underweight_model_simps:
  "param_r (set_data notebook_prices underweight_scenarios) = 40"
  "param_c (set_data notebook_prices underweight_scenarios) = 12"
  "param_w (set_data notebook_prices underweight_scenarios) = 2"
  "set_S (set_data notebook_prices underweight_scenarios)
     = [''sunny skies'', ''good weather'', ''poor weather'']"
  "param_p (set_data notebook_prices underweight_scenarios) ''sunny skies'' = 1 / 10"
  "param_p (set_data notebook_prices underweight_scenarios) ''good weather'' = 5 / 10"
  "param_p (set_data notebook_prices underweight_scenarios) ''poor weather'' = 3 / 10"
  "param_d (set_data notebook_prices underweight_scenarios) ''sunny skies'' = 650"
  "param_d (set_data notebook_prices underweight_scenarios) ''good weather'' = 400"
  "param_d (set_data notebook_prices underweight_scenarios) ''poor weather'' = 200"
  by (simp_all add: notebook_prices_def underweight_scenarios_def column_def)

lemma underweight_order_value:
  "pop_EV (set_data notebook_prices underweight_scenarios)
     (order_solution (set_data notebook_prices underweight_scenarios) 400) = 7800"
  by (simp add: pop_EV_def order_solution_def underweight_model_simps
      del: set_data_simps)

lemma underweight_order_optimal:
  "optimal_max (pop_feasible (set_data notebook_prices underweight_scenarios))
     (pop_EV (set_data notebook_prices underweight_scenarios))
     (order_solution (set_data notebook_prices underweight_scenarios) 400)"
  unfolding optimal_max_def
proof (intro conjI allI impI)
  show "pop_feasible (set_data notebook_prices underweight_scenarios)
      (order_solution (set_data notebook_prices underweight_scenarios) 400)"
    by (rule order_solution_feasible)
      (simp_all add: underweight_model_simps del: set_data_simps)
next
  fix v assume "pop_feasible (set_data notebook_prices underweight_scenarios) v"
  then have "pop_EV (set_data notebook_prices underweight_scenarios) v \<le> 7800"
    unfolding pop_feasible_iff pop_EV_def
    by (simp add: underweight_model_simps del: set_data_simps) argo
  then show "pop_EV (set_data notebook_prices underweight_scenarios) v
      \<le> pop_EV (set_data notebook_prices underweight_scenarios)
          (order_solution (set_data notebook_prices underweight_scenarios) 400)"
    by (simp only: underweight_order_value)
qed

text \<open>
  Claim C2, as stated, fails: the scenario set with the weights 0.1, 0.5 and 0.3 is not
  valid (they sum to 0.9), yet binding it raises no configuration error, and the model is
  solved with these weights as they are (the optimum is 7800; with the weights normalised
  it would not be).
\<close>

theorem underweight_scenarios_accepted:
  "\<not> spec_valid_scenario_set underweight_scenarios \<and>
   (\<Sum>row\<leftarrow>underweight_scenarios. probability (snd row)) = 9 / 10 \<and>
   pop_bind notebook_prices underweight_scenarios \<noteq> Inl Configuration_Error \<and>
   pop_bind notebook_prices underweight_scenarios
     = Inr (set_data notebook_prices underweight_scenarios) \<and>
   param_p (set_data notebook_prices underweight_scenarios) ''good weather'' = 1 / 2 \<and>
   optimal_max (pop_feasible (set_data notebook_prices underweight_scenarios))
     (pop_EV (set_data notebook_prices underweight_scenarios))
     (order_solution (set_data notebook_prices underweight_scenarios) 400) \<and>
   pop_EV (set_data notebook_prices underweight_scenarios)
     (order_solution (set_data notebook_prices underweight_scenarios) 400) = 7800"
  using underweight_not_valid underweight_sum underweight_order_optimal underweight_order_value
  by (simp add: pop_bind_def underweight_model_simps del: set_data_simps)

text \<open>
  Claim C2, amended. The notebook does not validate the probability weights. Binding a
  scenario dictionary never raises a configuration error, whatever the weights: the bound
  model has the keys of the dictionary as its set \<open>S\<close> and, the keys being distinct,
  the probability and the demand of every scenario as \<open>p[s]\<close> and \<open>d[s]\<close>, unchanged
  (not normalised); and the cell goes on to solve and report.
\<close>

theorem scenario_weights_bound_unchecked:
  "pop_bind pr df = Inr (set_data pr df) \<and>
   set_S (set_data pr df) = map fst df \<and>
   (distinct (map fst df) \<and> (s, sc) \<in> set df \<longrightarrow>
      param_p (set_data pr df) s = probability sc \<and>
      param_d (set_data pr df) s = demand sc) \<and>
   pop_cell solver pr df = Inr (pop_report df (set_data pr df) (solver (set_data pr df)))"
proof (intro conjI impI)
  assume h: "distinct (map fst df) \<and> (s, sc) \<in> set df"
  then have dist: "distinct (map fst df)" and row: "(s, sc) \<in> set df"
    by simp_all
  show "param_p (set_data pr df) s = probability sc"
    by (simp add: column_at_row [OF dist row])
  show "param_d (set_data pr df) s = demand sc"
    by (simp add: column_at_row [OF dist row])
qed (simp_all add: pop_bind_def pop_cell_def)

theorem scenario_weights_bound_unchecked_witness:
  "pop_bind notebook_prices underweight_scenarios
     = Inr (set_data notebook_prices underweight_scenarios) \<and>
   param_p (set_data notebook_prices underweight_scenarios) ''good weather'' = 1 / 2 \<and>
   param_d (set_data notebook_prices underweight_scenarios) ''good weather'' = 400"
proof -
  have dist: "distinct (map fst underweight_scenarios)"
    by (simp add: underweight_scenarios_def)
  have row: "(''good weather'', \<lparr>probability = 0.50, demand = 400\<rparr>) \<in> set underweight_scenarios"
    by (simp add: underweight_scenarios_def)
  from scenario_weights_bound_unchecked
    [of notebook_prices underweight_scenarios "''good weather''"
      "\<lparr>probability = 0.50, demand = 400\<rparr>"] dist row
  show ?thesis by simp
qed

subsection \<open>The report after a solve\<close>

lemma negative_demand_infeasible:
  "\<not> pop_feasible (set_data notebook_prices negative_demand_scenarios) v"
  unfolding pop_feasible_iff
  by (simp add: negative_demand_scenarios_def column_def)

text \<open>
  Claim C3, as stated, fails: with a negative demand \<^verbatim>\<open>pop.mod\<close> has no feasible point,
  so no solve of it is optimal; for the outcome \<^verbatim>\<open>infeasible\<close> the report still carries
  the line \<^verbatim>\<open>Expected Profit:\<close>, neither omitted nor marked.
\<close>

theorem metric_reported_when_infeasible:
  "\<not> (\<exists>v. pop_feasible (set_data notebook_prices negative_demand_scenarios) v) \<and>
   solve_result infeasible_outcome \<noteq> ''solved'' \<and>
   pop_report negative_demand_scenarios (set_data notebook_prices negative_demand_scenarios)
       infeasible_outcome
     = [Termination_Condition ''infeasible'', Blank_Line,
        Display [(''poor weather'',
          \<lparr>row_demand = - 200, row_probability = 1, row_order = 0, row_sold = 0,
           row_salvage = 0, row_profit = 0\<rparr>)],
        Expected_Profit 0] \<and>
   metric_lines (pop_report negative_demand_scenarios
       (set_data notebook_prices negative_demand_scenarios) infeasible_outcome)
     = [Expected_Profit 0]"
  using negative_demand_infeasible
  by (simp add: pop_report_def solution_table_def metric_lines_def infeasible_outcome_def
      negative_demand_scenarios_def pop_EV_def)

text \<open>
  Claim C3, amended. Whatever the solver's outcome, the report of the cell is the line
  with the solver's \<^verbatim>\<open>solve_result\<close>, a blank line, the table of the values the solver
  left and the line \<^verbatim>\<open>Expected Profit:\<close> with the objective at these values: the status
  is always stated, before the metric, and the metric is printed whether or not the status
  is \<^verbatim>\<open>solved\<close>, unmarked. The cell never replaces the solver's values by others.
\<close>

theorem report_states_status_and_metric:
  "pop_report df m out
     = [Termination_Condition (solve_result out), Blank_Line,
        Display (solution_table df (solution out)),
        Expected_Profit (pop_EV m (solution out))] \<and>
   hd (pop_report df m out) = Termination_Condition (solve_result out) \<and>
   metric_lines (pop_report df m out) = [Expected_Profit (pop_EV m (solution out))] \<and>
   pop_cell solver pr df = Inr (pop_report df (set_data pr df) (solver (set_data pr df)))"
  by (simp add: pop_report_def metric_lines_def pop_cell_def pop_bind_def)

section \<open>Properties of the LAD regression model\<close>

lemma lad_bind_simps [simp]:
  "lad_I (lad_bind X y) = [0..<fst (shape X)]"
  "lad_J (lad_bind X y) = [0..<snd (shape X)]"
  "lad_y (lad_bind X y) = y"
  "lad_X (lad_bind X y) = entry X"
  by (simp_all add: lad_bind_def split: prod.splits)

lemma upt_two: "[0..<2] = [0, 1]"
  by (simp add: upt_conv_Cons numeral_2_eq_2)

lemma upt_one: "[0..<1] = [0]"
  by (simp add: upt_conv_Cons)

lemma lad_feasible_slopes:
  assumes "lad_feasible d v" and "j \<in> set (lad_J d)"
  shows "0 \<le> lad_m v j"
  using assms by (simp add: lad_feasible_def lad_bounds_def)

lemma falling_feasible_iff:
  "lad_feasible (lad_bind falling_X falling_y) v \<longleftrightarrow>
     0 \<le> lad_ep v 0 \<and> 0 \<le> lad_ep v 1 \<and> 0 \<le> lad_em v 0 \<and> 0 \<le> lad_em v 1 \<and>
     0 \<le> lad_m v 0 \<and>
     lad_ep v 0 - lad_em v 0 = 1 - lad_b v \<and>
     lad_ep v 1 - lad_em v 1 = - lad_m v 0 - lad_b v"
  by (auto simp: lad_feasible_def lad_bounds_def lad_residuals_def falling_X_def falling_y_def
      upt_two upt_one)

lemma falling_objective:
  "sum_of_abs_errors (lad_bind falling_X falling_y) v
     = lad_ep v 0 + lad_em v 0 + lad_ep v 1 + lad_em v 1"
  by (simp add: sum_of_abs_errors_def falling_X_def upt_two upt_one)

lemma falling_text_objective:
  "text_objective (lad_bind falling_X falling_y) mb = \<bar>1 - snd mb\<bar> + \<bar>- fst mb 0 - snd mb\<bar>"
  by (simp add: text_objective_def text_deviation_def falling_X_def falling_y_def
      upt_two upt_one)

lemma falling_bound:
  assumes "lad_feasible (lad_bind falling_X falling_y) v"
  shows "1 \<le> sum_of_abs_errors (lad_bind falling_X falling_y) v"
  using assms unfolding falling_feasible_iff falling_objective by linarith

lemma falling_fit_optimal:
  "optimal_min (lad_feasible (lad_bind falling_X falling_y))
     (sum_of_abs_errors (lad_bind falling_X falling_y)) falling_fit"
  unfolding optimal_min_def
proof (intro conjI allI impI)
  show "lad_feasible (lad_bind falling_X falling_y) falling_fit"
    unfolding falling_feasible_iff by (simp add: falling_fit_def)
next
  fix v assume "lad_feasible (lad_bind falling_X falling_y) v"
  then have "1 \<le> sum_of_abs_errors (lad_bind falling_X falling_y) v"
    by (rule falling_bound)
  then show "sum_of_abs_errors (lad_bind falling_X falling_y) falling_fit
      \<le> sum_of_abs_errors (lad_bind falling_X falling_y) v"
    by (simp add: falling_objective falling_fit_def)
qed

lemma falling_other_fit_optimal:
  "optimal_min (lad_feasible (lad_bind falling_X falling_y))
     (sum_of_abs_errors (lad_bind falling_X falling_y)) falling_other_fit"
  and "lad_b falling_other_fit \<noteq> lad_b falling_fit"
proof -
  have "lad_feasible (lad_bind falling_X falling_y) falling_other_fit"
    unfolding falling_feasible_iff by (simp add: falling_other_fit_def)
  then show "optimal_min (lad_feasible (lad_bind falling_X falling_y))
      (sum_of_abs_errors (lad_bind falling_X falling_y)) falling_other_fit"
    unfolding optimal_min_def using falling_bound
    by (simp add: falling_objective falling_other_fit_def)
  show "lad_b falling_other_fit \<noteq> lad_b falling_fit"
    by (simp add: falling_other_fit_def falling_fit_def)
qed

lemma falling_text_optimal_iff:
  "optimal_min unconstrained (text_objective (lad_bind falling_X falling_y)) mb
   \<longleftrightarrow> fst mb 0 = - 1 \<and> snd mb = 1"
proof
  assume opt: "optimal_min unconstrained (text_objective (lad_bind falling_X falling_y)) mb"
  have "unconstrained (\<lambda>j. - 1, 1)"
    by (simp add: unconstrained_def)
  with opt have "text_objective (lad_bind falling_X falling_y) mb
      \<le> text_objective (lad_bind falling_X falling_y) (\<lambda>j. - 1, 1)"
    unfolding optimal_min_def by blast
  then show "fst mb 0 = - 1 \<and> snd mb = 1"
    unfolding falling_text_objective by simp linarith
next
  assume "fst mb 0 = - 1 \<and> snd mb = 1"
  then show "optimal_min unconstrained (text_objective (lad_bind falling_X falling_y)) mb"
    unfolding optimal_min_def falling_text_objective by (simp add: unconstrained_def)
qed

text \<open>
  Claim C9. For every data set \<open>(X, y)\<close>, every assignment that satisfies the
  constraints of the bound model, so every solution \<^verbatim>\<open>lad_regression\<close> returns, has
  all slopes \<open>m\<^sub>j\<close>, \<open>j < k\<close>, non-negative (\<^verbatim>\<open>var m{J} >= 0\<close>). The text's formulation has
  no such constraint, and the two differ: for the points \<open>(0, 1)\<close> and \<open>(1, 0)\<close> the
  text's formulation has the single optimum \<open>m = -1\<close>, \<open>b = 1\<close> with error 0, while the
  model of the code has an optimum, and every optimum of it has a slope \<open>m \<ge> 0\<close>, so
  not \<open>-1\<close>, and the error 1.
\<close>

theorem lad_slopes_nonnegative:
  "(lad_feasible (lad_bind X y) v \<and> j < snd (shape X) \<longrightarrow> 0 \<le> lad_m v j) \<and>
   (optimal_min (lad_feasible (lad_bind X y)) (sum_of_abs_errors (lad_bind X y)) v \<and>
    j < snd (shape X) \<longrightarrow> 0 \<le> lad_m v j) \<and>
   (optimal_min unconstrained (text_objective (lad_bind falling_X falling_y)) mb
      \<longleftrightarrow> fst mb 0 = - 1 \<and> snd mb = 1) \<and>
   text_objective (lad_bind falling_X falling_y) (\<lambda>j. - 1, 1) = 0 \<and>
   (\<exists>a. optimal_min (lad_feasible (lad_bind falling_X falling_y))
          (sum_of_abs_errors (lad_bind falling_X falling_y)) a) \<and>
   (optimal_min (lad_feasible (lad_bind falling_X falling_y))
      (sum_of_abs_errors (lad_bind falling_X falling_y)) w \<longrightarrow>
      0 \<le> lad_m w 0 \<and> lad_m w 0 \<noteq> - 1 \<and>
      sum_of_abs_errors (lad_bind falling_X falling_y) w = 1)"
proof (intro conjI impI)
  assume "lad_feasible (lad_bind X y) v \<and> j < snd (shape X)"
  then show "0 \<le> lad_m v j"
    using lad_feasible_slopes [of "lad_bind X y" v j] by simp
next
  assume "optimal_min (lad_feasible (lad_bind X y)) (sum_of_abs_errors (lad_bind X y)) v \<and>
    j < snd (shape X)"
  then show "0 \<le> lad_m v j"
    using lad_feasible_slopes [of "lad_bind X y" v j] by (simp add: optimal_min_def)
next
  show "optimal_min unconstrained (text_objective (lad_bind falling_X falling_y)) mb
      \<longleftrightarrow> fst mb 0 = - 1 \<and> snd mb = 1"
    by (rule falling_text_optimal_iff)
next
  show "text_objective (lad_bind falling_X falling_y) (\<lambda>j. - 1, 1) = 0"
    by (simp add: falling_text_objective)
next
  show "\<exists>a. optimal_min (lad_feasible (lad_bind falling_X falling_y))
      (sum_of_abs_errors (lad_bind falling_X falling_y)) a"
    using falling_fit_optimal by blast
next
  assume opt: "optimal_min (lad_feasible (lad_bind falling_X falling_y))
      (sum_of_abs_errors (lad_bind falling_X falling_y)) w"
  then have feas: "lad_feasible (lad_bind falling_X falling_y) w"
    by (simp add: optimal_min_def)
  then show m: "0 \<le> lad_m w 0"
    by (simp add: falling_feasible_iff)
  then show "lad_m w 0 \<noteq> - 1"
    by simp
  from optimal_min_value_unique [OF opt falling_fit_optimal]
  show "sum_of_abs_errors (lad_bind falling_X falling_y) w = 1"
    by (simp add: falling_objective falling_fit_def)
qed

theorem lad_slopes_nonnegative_witness:
  "optimal_min (lad_feasible (lad_bind falling_X falling_y))
     (sum_of_abs_errors (lad_bind falling_X falling_y)) falling_fit \<and>
   (0::nat) < snd (shape falling_X) \<and> 0 \<le> lad_m falling_fit 0 \<and>
   lad_m falling_fit 0 \<noteq> - 1 \<and>
   sum_of_abs_errors (lad_bind falling_X falling_y) falling_fit = 1 \<and>
   optimal_min unconstrained (text_objective (lad_bind falling_X falling_y)) (\<lambda>j. - 1, 1)"
  using lad_slopes_nonnegative [of falling_X falling_y falling_fit 0 "(\<lambda>j. - 1, 1)" falling_fit]
    falling_fit_optimal
  by (simp add: falling_X_def)

section \<open>Properties of the SAA objective\<close>

lemma sum_list_scale:
  fixes f :: "'a \<Rightarrow> real"
  shows "(\<Sum>x\<leftarrow>xs. c * f x) = c * (\<Sum>x\<leftarrow>xs. f x)"
  by (induction xs) (simp_all add: algebra_simps)

lemma set_T_sampled: "OPF_set_T (sampled_imbalances T draw) = [0..<T]"
  by (simp add: OPF_set_T_def sampled_imbalances_def)

lemma opf_obj_no_scenario:
  assumes "opf_T d = OPF_set_T []"
  shows "opf_obj d v = None"
  using assms by (simp add: opf_obj_def nT_def OPF_set_T_def)

text \<open>
  Claim C7. When the model is bound to \<open>T\<close> sampled scenarios (\<open>T > 0\<close>), the objective
  has a value, and it is the first-stage cost plus the sum over the samples of the
  recourse cost of each sample multiplied by \<open>1 / T\<close>, the same weight for every sample:
  the first-stage cost plus the average of the per-sample costs.
\<close>

theorem saa_objective_is_sample_average:
  assumes "opf_T d = OPF_set_T (sampled_imbalances T draw)" and "0 < T"
  shows "opf_obj d v =
           Some (first_stage_cost d v + (\<Sum>t\<leftarrow>[0..<T]. 1 / real T * recourse_cost d v t)) \<and>
         opf_obj d v =
           Some (first_stage_cost d v + (\<Sum>t\<leftarrow>[0..<T]. recourse_cost d v t) / real T)"
proof -
  have T: "opf_T d = [0..<T]"
    using assms(1) by (simp add: set_T_sampled)
  then have n: "nT d = real T"
    by (simp add: nT_def)
  have obj: "opf_obj d v =
      Some (first_stage_cost d v + 1 / real T * (\<Sum>t\<leftarrow>[0..<T]. recourse_cost d v t))"
    using assms(2) by (simp add: opf_obj_def n T)
  have "opf_obj d v =
      Some (first_stage_cost d v + (\<Sum>t\<leftarrow>[0..<T]. 1 / real T * recourse_cost d v t))"
    unfolding obj by (simp only: sum_list_scale)
  moreover have "opf_obj d v =
      Some (first_stage_cost d v + (\<Sum>t\<leftarrow>[0..<T]. recourse_cost d v t) / real T)"
    unfolding obj by simp
  ultimately show ?thesis by blast
qed

theorem saa_objective_is_sample_average_witness:
  "opf_T two_sample_network = OPF_set_T (sampled_imbalances 2 (\<lambda>t. ())) \<and> (0::nat) < 2 \<and>
   recourse_cost two_sample_network two_sample_dispatch 0 = 60 \<and>
   recourse_cost two_sample_network two_sample_dispatch 1 = 180 \<and>
   opf_obj two_sample_network two_sample_dispatch = Some (300 + (1 / 2 * 60 + 1 / 2 * 180)) \<and>
   opf_obj two_sample_network two_sample_dispatch = Some 420"
proof -
  have T: "opf_T two_sample_network = OPF_set_T (sampled_imbalances 2 (\<lambda>t. ()))"
    by (simp add: two_sample_network_def)
  have pos: "(0::nat) < 2" by simp
  have r0: "recourse_cost two_sample_network two_sample_dispatch 0 = 60"
    and r1: "recourse_cost two_sample_network two_sample_dispatch 1 = 180"
    by (simp_all add: recourse_cost_def two_sample_network_def two_sample_dispatch_def)
  have f: "first_stage_cost two_sample_network two_sample_dispatch = 300"
    by (simp add: first_stage_cost_def two_sample_network_def two_sample_dispatch_def)
  from saa_objective_is_sample_average [OF T pos, of two_sample_dispatch]
  have "opf_obj two_sample_network two_sample_dispatch = Some (300 + (1 / 2 * 60 + 1 / 2 * 180))"
    using r1 by (simp add: upt_two r0 f)
  with T r0 r1 show ?thesis by simp
qed

end
